theory Spec2Isabelle
  imports Main "HOL-Library.Sublist"
begin

section \<open>JavaScript strings and built-ins\<close>

text \<open>
  A JavaScript string is modelled as a HOL \<open>string\<close>. Request paths, host names and the
  literals of the source are ASCII, where one character is one code unit. Header values are
  byte strings; a character of the model is then one code unit below 256.

  \<open>undefined\<close>, \<open>null\<close> and a missing header are \<open>None\<close>. The test \<open>if (x)\<close> on such a
  value is \<open>truthy\<close>: the value is present and not the empty string.
\<close>

definition truthy :: "string option \<Rightarrow> bool" where
  "truthy v = (case v of None \<Rightarrow> False | Some s \<Rightarrow> s \<noteq> [])"

text \<open>\<open>s.startsWith(p)\<close>, \<open>s.endsWith(p)\<close> and \<open>s.includes(p)\<close> (\<open>includesStr\<close>).\<close>

definition startsWith :: "string \<Rightarrow> string \<Rightarrow> bool" where
  "startsWith s p = (take (length p) s = p)"

definition endsWith :: "string \<Rightarrow> string \<Rightarrow> bool" where
  "endsWith s p = (length p \<le> length s \<and> drop (length s - length p) s = p)"

fun includesStr :: "string \<Rightarrow> string \<Rightarrow> bool" where
  "includesStr [] p = (p = [])"
| "includesStr (c # cs) p = (startsWith (c # cs) p \<or> includesStr cs p)"

text \<open>\<open>s.split(sep)[0]\<close> for a one-character separator: the text before its first occurrence.\<close>

definition splitFirst :: "char \<Rightarrow> string \<Rightarrow> string" where
  "splitFirst sep s = takeWhile (\<lambda>c. c \<noteq> sep) s"

text \<open>
  \<open>s.trim()\<close>. Among the code units below 256 the white space and line terminators of
  ECMAScript are TAB, LF, VT, FF, CR, SPACE and NO-BREAK SPACE.
\<close>

definition isWhiteSpace :: "char \<Rightarrow> bool" where
  "isWhiteSpace c = ((of_char c :: nat) \<in> {9, 10, 11, 12, 13, 32, 160})"

definition trim :: "string \<Rightarrow> string" where
  "trim s = rev (dropWhile isWhiteSpace (rev (dropWhile isWhiteSpace s)))"

text \<open>
  \<open>s.toLowerCase()\<close> on code units below 256: the letters A-Z and the Latin-1 capitals
  U+00C0..U+00DE (without the multiplication sign U+00D7) move up by 32.
\<close>

definition lowerChar :: "char \<Rightarrow> char" where
  "lowerChar c =
     (let n = (of_char c :: nat) in
      if 65 \<le> n \<and> n \<le> 90 then char_of (n + 32)
      else if 192 \<le> n \<and> n \<le> 222 \<and> n \<noteq> 215 then char_of (n + 32)
      else c)"

definition toLowerCase :: "string \<Rightarrow> string" where
  "toLowerCase s = map lowerChar s"

text \<open>Character classes of the regular expressions in the source.\<close>

definition isDigit :: "char \<Rightarrow> bool" where
  "isDigit c = (let n = (of_char c :: nat) in 48 \<le> n \<and> n \<le> 57)"

definition isAlnum :: "char \<Rightarrow> bool" where
  "isAlnum c =
     (let n = (of_char c :: nat) in
      (48 \<le> n \<and> n \<le> 57) \<or> (65 \<le> n \<and> n \<le> 90) \<or> (97 \<le> n \<and> n \<le> 122))"

definition hexval :: "char \<Rightarrow> nat option" where
  "hexval c =
     (let n = (of_char c :: nat) in
      if 48 \<le> n \<and> n \<le> 57 then Some (n - 48)
      else if 65 \<le> n \<and> n \<le> 70 then Some (n - 55)
      else if 97 \<le> n \<and> n \<le> 102 then Some (n - 87)
      else None)"

datatype js_error = URIError | TypeError | UniqueConstraintError | SendError

subsection \<open>decodeURIComponent\<close>

text \<open>
  \<open>decodeURIComponent\<close> (ECMA-262, Decode with an empty reserved set). The text is first cut
  into literal characters and escapes \<open>%XX\<close>; a \<open>%\<close> that is not followed by two hexadecimal
  digits raises \<open>URIError\<close>. An escape below 128 is that character. An escape from 128 on must
  start a well-formed UTF-8 sequence whose other octets are escapes too, otherwise \<open>URIError\<close>
  is raised. The decoded code point is kept as its UTF-8 octets.
\<close>

datatype uri_item = Lit char | Esc nat

fun uri_items :: "string \<Rightarrow> uri_item list option" where
  "uri_items [] = Some []"
| "uri_items (c # cs) =
     (if c = CHR ''%'' then
        (case cs of
           h1 # h2 # r \<Rightarrow>
             (case hexval h1 of
                None \<Rightarrow> None
              | Some a \<Rightarrow>
                 (case hexval h2 of
                    None \<Rightarrow> None
                  | Some b \<Rightarrow> map_option ((#) (Esc (16 * a + b))) (uri_items r)))
         | _ \<Rightarrow> None)
      else map_option ((#) (Lit c)) (uri_items cs))"

definition isCont :: "nat \<Rightarrow> bool" where
  "isCont b = (128 \<le> b \<and> b < 192)"

fun utf8_items :: "uri_item list \<Rightarrow> string option" where
  "utf8_items [] = Some []"
| "utf8_items (Lit c # r) = map_option ((#) c) (utf8_items r)"
| "utf8_items (Esc b # r) =
     (if b < 128 then map_option ((#) (char_of b)) (utf8_items r)
      else if 194 \<le> b \<and> b < 224 then
        (case r of
           Esc b1 # r' \<Rightarrow>
             if isCont b1
             then map_option (\<lambda>s. char_of b # char_of b1 # s) (utf8_items r')
             else None
         | _ \<Rightarrow> None)
      else if 224 \<le> b \<and> b < 240 then
        (case r of
           Esc b1 # Esc b2 # r' \<Rightarrow>
             if isCont b1 \<and> isCont b2 \<and> (if b = 224 then 160 \<le> b1 else True)
                \<and> (if b = 237 then b1 < 160 else True)
             then map_option (\<lambda>s. char_of b # char_of b1 # char_of b2 # s) (utf8_items r')
             else None
         | _ \<Rightarrow> None)
      else if 240 \<le> b \<and> b < 245 then
        (case r of
           Esc b1 # Esc b2 # Esc b3 # r' \<Rightarrow>
             if isCont b1 \<and> isCont b2 \<and> isCont b3 \<and> (if b = 240 then 144 \<le> b1 else True)
                \<and> (if b = 244 then b1 < 144 else True)
             then map_option (\<lambda>s. char_of b # char_of b1 # char_of b2 # char_of b3 # s)
                    (utf8_items r')
             else None
         | _ \<Rightarrow> None)
      else None)"

definition decodeURIComponent :: "string \<Rightarrow> js_error + string" where
  "decodeURIComponent s =
     (case uri_items s of
        None \<Rightarrow> Inl URIError
      | Some its \<Rightarrow> (case utf8_items its of None \<Rightarrow> Inl URIError | Some r \<Rightarrow> Inr r))"

section \<open>The app middleware\<close>

text \<open>
  The decoded session token (\<open>getToken\<close>), reduced to the claims the middleware reads.
  \<open>jwt_createdAt\<close> is \<open>new Date(createdAt).getTime()\<close>: \<open>None\<close> when the claim is missing or
  empty, or when it is no date (the time value is then NaN, and every comparison with NaN
  is false).
\<close>

record jwt =
  jwt_email :: "string option"
  jwt_role :: "string option"
  jwt_createdAt :: "int option"

text \<open>
  The request as the middleware sees it: \<open>url.pathname\<close>, \<open>url.search\<close> (empty, or the query
  with its leading question mark), \<open>url.searchParams\<close> as the list of decoded name/value
  pairs, and the result of \<open>getToken\<close>. \<open>url_resolves target\<close> tells whether
  \<open>new URL(target, req.url)\<close> succeeds; where it does not, the constructor raises
  \<open>TypeError\<close>. The request URL is an absolute URL, against which every path of the source
  that starts with a slash resolves, so the field is only asked about a target that the
  caller supplies.
\<close>

record app_request =
  pathname :: string
  search :: string
  searchParams :: "(string \<times> string) list"
  token :: "jwt option"
  url_resolves :: "string \<Rightarrow> bool"

definition searchParams_has :: "app_request \<Rightarrow> string \<Rightarrow> bool" where
  "searchParams_has req name = (map_of (searchParams req) name \<noteq> None)"

definition searchParams_get :: "app_request \<Rightarrow> string \<Rightarrow> string option" where
  "searchParams_get req name = map_of (searchParams req) name"

text \<open>
  The middleware's answer. \<open>Redirect target params\<close> is \<open>NextResponse.redirect\<close> to the URL
  built from \<open>target\<close> against the request URL, with the listed query parameters set on it;
  \<open>Next\<close> is \<open>NextResponse.next()\<close>; \<open>NoResponse\<close> is the function falling off its end.
\<close>

datatype response = Redirect string "(string \<times> string) list" | Next | NoResponse

definition userEmail :: "app_request \<Rightarrow> string option" where
  "userEmail req = (case token req of None \<Rightarrow> None | Some t \<Rightarrow> jwt_email t)"

definition userRole :: "app_request \<Rightarrow> string" where
  "userRole req =
     (case token req of
        None \<Rightarrow> ''LP''
      | Some t \<Rightarrow> (if truthy (jwt_role t) then the (jwt_role t) else ''LP''))"

definition userCreatedAt :: "app_request \<Rightarrow> int option" where
  "userCreatedAt req = (case token req of None \<Rightarrow> None | Some t \<Rightarrow> jwt_createdAt t)"

definition nextPathOf :: "app_request \<Rightarrow> string" where
  "nextPathOf req = (if search req \<noteq> [] then pathname req @ search req else pathname req)"

definition gpRoutes :: "string list" where
  "gpRoutes = [''/dashboard'', ''/settings'', ''/documents'', ''/datarooms'', ''/admin'', ''/hub'']"

definition isPublicPage :: "string \<Rightarrow> bool" where
  "isPublicPage path = (path = ''/lp/onboard'' \<or> path = ''/lp/login'' \<or> path = ''/signup'')"

definition isGpRoute :: "string \<Rightarrow> bool" where
  "isGpRoute path = (path \<noteq> ''/admin/login'' \<and> list_ex (startsWith path) gpRoutes)"

definition isLoginPage :: "string \<Rightarrow> bool" where
  "isLoginPage path = (path = ''/login'' \<or> path = ''/admin/login'' \<or> path = ''/lp/login'')"

definition isAdminRoute :: "string \<Rightarrow> bool" where
  "isAdminRoute path =
     (startsWith path ''/dashboard'' \<or> startsWith path ''/settings''
      \<or> startsWith path ''/documents'' \<or> startsWith path ''/datarooms'')"

definition recentlyCreated :: "int \<Rightarrow> app_request \<Rightarrow> bool" where
  "recentlyCreated now req =
     (case userCreatedAt req of None \<Rightarrow> False | Some t \<Rightarrow> t > now - 10000)"

text \<open>
  The paths that \<open>AppMiddleware\<close> answers in one of its earlier branches, before it comes
  to the rules for the remaining paths: the root, the public pages, the view pages,
  \<open>/viewer-redirect\<close>, the LP routes and the GP routes.
\<close>

definition answeredEarlier :: "string \<Rightarrow> bool" where
  "answeredEarlier path =
     (path = ''/'' \<or> isPublicPage path \<or> startsWith path ''/view/''
      \<or> path = ''/viewer-redirect'' \<or> startsWith path ''/lp/'' \<or> isGpRoute path)"

text \<open>
  The redirect of an authenticated user away from a login page. \<open>decodeURIComponent\<close> raises
  \<open>URIError\<close> on a \<open>next\<close> value that does not decode, and \<open>new URL(finalPath, req.url)\<close>
  raises \<open>TypeError\<close> on a decoded \<open>next\<close> value that is no URL.
\<close>

definition loginPageRedirect :: "app_request \<Rightarrow> js_error + response" where
  "loginPageRedirect req =
     (let nextParam = searchParams_get req ''next'';
          decoded = (if truthy nextParam then map_sum id Some (decodeURIComponent (the nextParam))
                     else Inr None)
      in case decoded of
           Inl e \<Rightarrow> Inl e
         | Inr nextPath0 \<Rightarrow>
             (let nextPath =
                    (if truthy nextPath0
                        \<and> (includesStr (the nextPath0) ''/login''
                            \<or> includesStr (the nextPath0) ''/admin/login''
                            \<or> includesStr (the nextPath0) ''/lp/login'')
                     then None else nextPath0);
                  defaultRedirect =
                    (if pathname req = ''/admin/login'' then ''/hub'' else ''/viewer-redirect'');
                  finalPath = (if truthy nextPath then the nextPath else defaultRedirect)
              in if truthy nextPath \<and> \<not> url_resolves req finalPath then Inl TypeError
                 else Inr (Redirect finalPath [])))"

text \<open>
  \<open>AppMiddleware\<close>, with \<open>Date.now()\<close> as the argument \<open>now\<close>. The body raises an exception
  only in its login-page redirect.
\<close>

definition AppMiddleware :: "int \<Rightarrow> app_request \<Rightarrow> js_error + response" where
  "AppMiddleware now req =
     (let path = pathname req in
      if path = ''/'' then Inr (Redirect ''/login'' [])
      else if isPublicPage path then Inr Next
      else if startsWith path ''/view/'' then Inr Next
      else if path = ''/viewer-redirect'' then Inr Next
      else if startsWith path ''/lp/'' then
        (if \<not> truthy (userEmail req) then Inr (Redirect ''/lp/login'' [(''next'', nextPathOf req)])
         else if userRole req \<noteq> ''LP'' \<and> userRole req \<noteq> ''GP''
           then Inr (Redirect ''/viewer-redirect'' [])
         else Inr Next)
      else if isGpRoute path then
        (if \<not> truthy (userEmail req)
           then Inr (Redirect ''/admin/login'' [(''next'', nextPathOf req)])
         else if userRole req = ''LP'' then Inr (Redirect ''/viewer-portal'' [])
         else Inr Next)
      else if \<not> truthy (userEmail req) \<and> \<not> isLoginPage path then
        Inr (Redirect (if isAdminRoute path then ''/admin/login'' else ''/login'')
               (if path \<noteq> ''/'' then [(''next'', nextPathOf req)] else []))
      else if truthy (userEmail req) \<and> recentlyCreated now req \<and> path \<noteq> ''/welcome''
              \<and> \<not> searchParams_has req ''invitation''
        then Inr (Redirect ''/welcome'' [])
      else if truthy (userEmail req) \<and> isLoginPage path then loginPageRedirect req
      else if truthy (userEmail req) \<and> path = ''/viewer-portal'' then Inr Next
      else Inr NoResponse)"

section \<open>The entry proxy\<close>

subsection \<open>Host and client address validation\<close>

text \<open>
  \<open>hostPattern\<close> is the regular expression
  \<^verbatim>\<open>/^[a-zA-Z0-9][a-zA-Z0-9\-\.]*[a-zA-Z0-9]$|^[a-zA-Z0-9]$/\<close>
  (without the \<open>m\<close> flag, \<open>$\<close> is the end of the input).
\<close>

definition isHostChar :: "char \<Rightarrow> bool" where
  "isHostChar c = (isAlnum c \<or> c = CHR ''-'' \<or> c = CHR ''.'')"

fun hostPattern :: "string \<Rightarrow> bool" where
  "hostPattern [] = False"
| "hostPattern [c] = isAlnum c"
| "hostPattern (c # d # r) =
     (isAlnum c \<and> list_all isHostChar (butlast (d # r)) \<and> isAlnum (last (d # r)))"

text \<open>
  The grammar of host names as the specification words it: one alphanumeric character, or
  an alphanumeric character, then any number of alphanumeric characters, hyphens and dots,
  then an alphanumeric character.
\<close>

definition hostGrammar :: "string \<Rightarrow> bool" where
  "hostGrammar s =
     ((\<exists>c. s = [c] \<and> isAlnum c)
      \<or> (\<exists>a m z. s = a # m @ [z] \<and> isAlnum a \<and> list_all isHostChar m \<and> isAlnum z))"

definition validateHost :: "string option \<Rightarrow> bool" where
  "validateHost host =
     (if \<not> truthy host then False
      else
        (let cleanHost = splitFirst CHR '':'' (the host) in
         if length cleanHost > 253 then False
         else if \<not> hostPattern cleanHost then False
         else True))"

text \<open>\<open>s.split(sep)\<close> for a one-character separator.\<close>

fun splitOn :: "char \<Rightarrow> string \<Rightarrow> string list" where
  "splitOn sep [] = [[]]"
| "splitOn sep (c # cs) =
     (if c = sep then [] # splitOn sep cs
      else (case splitOn sep cs of [] \<Rightarrow> [[c]] | g # gs \<Rightarrow> (c # g) # gs))"

text \<open>
  \<open>ipv4Pattern\<close> is \<^verbatim>\<open>/^(\d{1,3}\.){3}\d{1,3}$/\<close>: four groups of one to three digits
  separated by dots. \<open>ipv6Pattern\<close> is \<^verbatim>\<open>/^([a-fA-F0-9:]+)$/\<close>.
\<close>

definition ipv4Pattern :: "string \<Rightarrow> bool" where
  "ipv4Pattern s =
     (let groups = splitOn CHR ''.'' s in
      length groups = 4
      \<and> list_all (\<lambda>g. 1 \<le> length g \<and> length g \<le> 3 \<and> list_all isDigit g) groups)"

definition isHexOrColon :: "char \<Rightarrow> bool" where
  "isHexOrColon c = (case hexval c of Some d \<Rightarrow> True | None \<Rightarrow> c = CHR '':'')"

definition ipv6Pattern :: "string \<Rightarrow> bool" where
  "ipv6Pattern s = (s \<noteq> [] \<and> list_all isHexOrColon s)"

text \<open>
  The request as the proxy reads it: \<open>req.nextUrl.pathname\<close> and the headers \<open>host\<close>,
  \<open>x-forwarded-for\<close>, \<open>x-real-ip\<close> and \<open>x-client-ip\<close>.
\<close>

record proxy_request =
  nextUrl_pathname :: string
  host :: "string option"
  x_forwarded_for :: "string option"
  x_real_ip :: "string option"
  x_client_ip :: "string option"

text \<open>
  \<open>headerIP\<close> is the constant \<open>ip\<close> of \<open>validateClientIP\<close>:
  \<^verbatim>\<open>forwardedFor?.split(',')[0]?.trim() || realIP || null\<close>.
\<close>

definition headerIP :: "proxy_request \<Rightarrow> string option" where
  "headerIP req =
     (let first = map_option (\<lambda>f. trim (splitFirst CHR '','' f)) (x_forwarded_for req)
      in if truthy first then first
         else if truthy (x_real_ip req) then x_real_ip req
         else None)"

definition validateClientIP :: "proxy_request \<Rightarrow> string option" where
  "validateClientIP req =
     (let ip = headerIP req
      in if truthy ip \<and> \<not> ipv4Pattern (the ip) \<and> \<not> ipv6Pattern (the ip) then None else ip)"

subsection \<open>Path sanitization\<close>

text \<open>
  \<^verbatim>\<open>path.replace(/\.{2,}/g, '')\<close> removes every maximal run of two or more dots. The
  first argument of \<open>stripDots\<close> counts the dots of the run being read.
\<close>

fun stripDots :: "nat \<Rightarrow> string \<Rightarrow> string" where
  "stripDots n [] = (if n = 1 then ''.'' else [])"
| "stripDots n (c # cs) =
     (if c = CHR ''.'' then stripDots (Suc n) cs
      else (if n = 1 then ''.'' else []) @ c # stripDots 0 cs)"

text \<open>\<^verbatim>\<open>sanitized.replace(/\/+/g, '/')\<close> leaves one slash of every run of slashes.\<close>

fun collapseSlashes :: "string \<Rightarrow> string" where
  "collapseSlashes [] = []"
| "collapseSlashes [c] = [c]"
| "collapseSlashes (a # b # r) =
     (if a = CHR ''/'' \<and> b = CHR ''/'' then collapseSlashes (b # r)
      else a # collapseSlashes (b # r))"

text \<open>\<^verbatim>\<open>.replace(/[<>'"]/g, '')\<close>\<close>

definition isAngleOrQuote :: "char \<Rightarrow> bool" where
  "isAngleOrQuote c = (c = CHR ''<'' \<or> c = CHR ''>'' \<or> c = CHR 0x27 \<or> c = CHR 0x22)"

definition stripAngleQuote :: "string \<Rightarrow> string" where
  "stripAngleQuote s = filter (\<lambda>c. \<not> isAngleOrQuote c) s"

definition sanitizePath :: "string \<Rightarrow> js_error + string" where
  "sanitizePath path =
     (let sanitized = stripDots 0 path;
          sanitized = collapseSlashes sanitized
      in map_sum id stripAngleQuote (decodeURIComponent sanitized))"

subsection \<open>Classification and dispatch\<close>

text \<open>
  What the proxy reads from its environment. \<open>isWebhookPath\<close> and \<open>BLOCKED_PATHNAMES\<close> are
  imported by the source from modules that are not part of it and are taken as given.
  \<open>NEXTAUTH_URL\<close> is unset, or a text that \<open>new URL\<close> rejects, or a URL with a host name.
\<close>

datatype nextauth_url = Unset | Unparsable | Hostname string

record environment =
  NODE_ENV_development :: bool
  NEXT_PUBLIC_PLATFORM_DOMAIN :: "string option"
  NEXTAUTH_URL :: nextauth_url
  isWebhookPath :: "string option \<Rightarrow> bool"
  BLOCKED_PATHNAMES :: "string list"

definition isAnalyticsPath :: "string \<Rightarrow> bool" where
  "isAnalyticsPath path = startsWith path ''/ingest/''"

definition knownNonCustomPatterns :: "string list" where
  "knownNonCustomPatterns =
     [''localhost'', ''.vercel.app'', ''.replit.app'', ''.replit.dev'', ''.repl.co'']"

definition isCustomDomain :: "environment \<Rightarrow> string \<Rightarrow> js_error + bool" where
  "isCustomDomain env h =
     (if NODE_ENV_development env then Inr (includesStr h ''.local'')
      else
        (let platformDomain =
               (if truthy (NEXT_PUBLIC_PLATFORM_DOMAIN env)
                then the (NEXT_PUBLIC_PLATFORM_DOMAIN env) else ''fundroom.ai'');
             cleanHost = splitFirst CHR '':'' h
         in if list_ex (\<lambda>p. cleanHost = p \<or> endsWith cleanHost p) knownNonCustomPatterns
              then Inr False
            else if cleanHost = platformDomain \<or> cleanHost = ''www.'' @ platformDomain
              then Inr False
            else if endsWith cleanHost (''.'' @ platformDomain) then Inr True
            else
              (case NEXTAUTH_URL env of
                 Unparsable \<Rightarrow> Inl TypeError
               | Unset \<Rightarrow> Inr True
               | Hostname nextauthHost \<Rightarrow>
                   if nextauthHost \<noteq> [] \<and> cleanHost = nextauthHost then Inr False
                   else Inr True)))"

text \<open>
  The decision of the proxy. \<open>ErrorResponse message status\<close> is \<open>createErrorResponse\<close>.
  \<open>PostHog\<close>, \<open>IncomingWebhook\<close>, \<open>Domain\<close> and \<open>App\<close> hand the request to that
  middleware; their argument is the \<open>x-client-ip\<close> header of the request handed over.
  \<open>Rewrite404\<close> and \<open>CSPResponse\<close> are the two answers of the proxy's last branch.
\<close>

datatype proxy_result =
    ErrorResponse string nat
  | PostHog "string option"
  | IncomingWebhook "string option"
  | Domain "string option"
  | App "string option"
  | Rewrite404
  | CSPResponse

definition proxy :: "environment \<Rightarrow> proxy_request \<Rightarrow> proxy_result" where
  "proxy env req =
     (case sanitizePath (nextUrl_pathname req) of
        Inl e \<Rightarrow> ErrorResponse ''Internal server error'' 500
      | Inr path \<Rightarrow>
          if \<not> validateHost (host req) then ErrorResponse ''Invalid host header'' 400
          else
            (let clientIP = validateClientIP req;
                 forwarded = (if truthy clientIP then clientIP else x_client_ip req)
             in if isAnalyticsPath path then PostHog forwarded
                else if isWebhookPath env (host req) then IncomingWebhook forwarded
                else
                  (case isCustomDomain env (if truthy (host req) then the (host req) else [])
                   of
                     Inl e \<Rightarrow> ErrorResponse ''Internal server error'' 500
                   | Inr True \<Rightarrow> Domain forwarded
                   | Inr False \<Rightarrow>
                       if \<not> startsWith path ''/view/'' \<and> \<not> startsWith path ''/verify''
                          \<and> \<not> startsWith path ''/unsubscribe''
                         then App forwarded
                       else if startsWith path ''/view/''
                               \<and> (list_ex (\<lambda>blockedPath. includesStr path blockedPath)
                                     (BLOCKED_PATHNAMES env)
                                   \<or> includesStr path ''.'')
                         then Rewrite404
                       else CSPResponse)))"

section \<open>Magic links\<close>

subsection \<open>The admin magic link\<close>

text \<open>
  The table \<open>verificationToken\<close> is a list of rows; its column \<open>token\<close> is unique, so
  \<open>create\<close> raises on a token that is already stored and \<open>findUnique\<close> and \<open>delete\<close>
  address at most one row.
\<close>

record verification_token =
  vt_identifier :: string
  vt_token :: string
  vt_expires :: int

definition findUnique :: "string \<Rightarrow> verification_token list \<Rightarrow> verification_token option" where
  "findUnique tok rows = find (\<lambda>r. vt_token r = tok) rows"

definition deleteToken :: "string \<Rightarrow> verification_token list \<Rightarrow> verification_token list" where
  "deleteToken tok rows = filter (\<lambda>r. vt_token r \<noteq> tok) rows"

definition createToken ::
  "verification_token \<Rightarrow> verification_token list \<Rightarrow> js_error + verification_token list" where
  "createToken row rows =
     (if findUnique (vt_token row) rows \<noteq> None then Inl UniqueConstraintError
      else Inr (rows @ [row]))"

definition ADMIN_MAGIC_LINK_EXPIRY_MINUTES :: int where
  "ADMIN_MAGIC_LINK_EXPIRY_MINUTES = 60"

definition normalizeEmail :: "string \<Rightarrow> string" where
  "normalizeEmail email = toLowerCase (trim email)"

definition adminIdentifier :: "string \<Rightarrow> string" where
  "adminIdentifier email = ''admin-magic:'' @ normalizeEmail email"

text \<open>
  The link that is mailed: the address \<open>baseUrl/api/auth/admin-magic-verify\<close> and the query
  parameters that \<open>URLSearchParams\<close> serializes behind it.
\<close>

record magic_link =
  ml_address :: string
  ml_params :: "(string \<times> string) list"

text \<open>
  \<open>createAdminMagicLink\<close>. \<open>isUserAdminAsync\<close> is imported from a module that is not part
  of the source and is the argument \<open>isAdmin\<close>; \<open>Date.now()\<close> is \<open>now\<close> and the result of
  \<open>randomUUID()\<close> is \<open>uuid\<close>. Every exception is caught and answered with \<open>null\<close>.
\<close>

definition createAdminMagicLink ::
  "(string \<Rightarrow> bool) \<Rightarrow> int \<Rightarrow> string \<Rightarrow> string \<Rightarrow> string option \<Rightarrow> string
     \<Rightarrow> verification_token list \<Rightarrow> (magic_link \<times> string) option \<times> verification_token list" where
  "createAdminMagicLink isAdmin now uuid email redirectPath baseUrl rows =
     (let normalizedEmail = normalizeEmail email in
      if \<not> isAdmin normalizedEmail then (None, rows)
      else
        (let expires = now + ADMIN_MAGIC_LINK_EXPIRY_MINUTES * 60 * 1000 in
         case createToken \<lparr>vt_identifier = ''admin-magic:'' @ normalizedEmail,
                            vt_token = uuid, vt_expires = expires\<rparr> rows of
           Inl e \<Rightarrow> (None, rows)
         | Inr rows' \<Rightarrow>
             (let params = [(''token'', uuid), (''email'', normalizedEmail)]
                           @ (if truthy redirectPath then [(''redirect'', the redirectPath)]
                              else [])
              in (Some (\<lparr>ml_address = baseUrl @ ''/api/auth/admin-magic-verify'',
                          ml_params = params\<rparr>, uuid),
                  rows'))))"

text \<open>\<open>verifyAdminMagicLink\<close>: the answer and the table it leaves.\<close>

definition verifyAdminMagicLink ::
  "(string \<Rightarrow> bool) \<Rightarrow> int \<Rightarrow> string \<Rightarrow> string \<Rightarrow> verification_token list
     \<Rightarrow> bool \<times> verification_token list" where
  "verifyAdminMagicLink isAdmin now tok email rows =
     (let normalizedEmail = normalizeEmail email;
          identifier = ''admin-magic:'' @ normalizedEmail
      in if \<not> isAdmin normalizedEmail then (False, rows)
         else
           (case findUnique tok rows of
              None \<Rightarrow> (False, rows)
            | Some verification \<Rightarrow>
                if vt_identifier verification \<noteq> identifier then (False, rows)
                else if vt_expires verification < now then (False, deleteToken tok rows)
                else (True, deleteToken tok rows)))"

text \<open>A series of verification attempts, each with its time, token and address.\<close>

fun verifyAll ::
  "(string \<Rightarrow> bool) \<Rightarrow> (int \<times> string \<times> string) list \<Rightarrow> verification_token list
     \<Rightarrow> bool list \<times> verification_token list" where
  "verifyAll isAdmin [] rows = ([], rows)"
| "verifyAll isAdmin ((now, tok, email) # attempts) rows =
     (let (ok, rows') = verifyAdminMagicLink isAdmin now tok email rows;
          (oks, rows'') = verifyAll isAdmin attempts rows'
      in (ok # oks, rows''))"

subsection \<open>The e-mail login link\<close>

text \<open>
  The table \<open>magicLinkCallback\<close> is a list of rows; \<open>deleteMany\<close> removes every row of an
  identifier and \<open>create\<close> appends one.
\<close>

record magic_link_callback =
  mlc_identifier :: string
  mlc_token :: string
  mlc_callbackUrl :: string
  mlc_authTokenHash :: string
  mlc_expires :: int

text \<open>
  \<open>sendVerificationRequestEmail\<close>: its outcome and the table it leaves. \<open>urlsParse\<close> tells
  whether the two \<open>new URL\<close> at its start succeed, \<open>sendOk\<close> whether \<open>sendEmail\<close> does;
  \<open>now\<close> is \<open>Date.now()\<close> and \<open>randomHex\<close> the text of \<open>crypto.randomBytes(32)\<close>.
\<close>

definition sendVerificationRequestEmail ::
  "bool \<Rightarrow> bool \<Rightarrow> int \<Rightarrow> string \<Rightarrow> string \<Rightarrow> string \<Rightarrow> magic_link_callback list
     \<Rightarrow> (js_error + unit) \<times> magic_link_callback list" where
  "sendVerificationRequestEmail urlsParse sendOk now randomHex email url rows =
     (if \<not> urlsParse then (Inl TypeError, rows)
      else
        (let emailLower = toLowerCase email;
             rows1 = filter (\<lambda>r. mlc_identifier r \<noteq> emailLower) rows;
             expiresAt = now + 30 * 60 * 1000;
             rows2 = rows1 @ [\<lparr>mlc_identifier = emailLower, mlc_token = randomHex,
                                mlc_callbackUrl = url, mlc_authTokenHash = [],
                                mlc_expires = expiresAt\<rparr>]
         in (if sendOk then Inr () else Inl SendError, rows2)))"

subsection \<open>The redirect after an admin magic link\<close>

text \<open>
  Modelled from the spec: the request handler \<open>pages/api/auth/admin-magic-verify.ts\<close> is not
  part of the source (only its tests are). The spec says of it: a caller-supplied redirect
  path must match an explicit allow-list of path prefixes and must be a same-origin relative
  path beginning with a single slash; absolute URLs, protocol-relative URLs and any path
  outside the allow-list are rejected in favour of a fixed default destination.
\<close>

definition allowedRedirectPrefixes :: "string list" where
  "allowedRedirectPrefixes = [''/hub'', ''/dashboard'', ''/settings'', ''/datarooms'', ''/admin'']"

definition defaultRedirect :: string where
  "defaultRedirect = ''/hub''"

definition isAllowedRedirect :: "string \<Rightarrow> bool" where
  "isAllowedRedirect r =
     (startsWith r ''/'' \<and> \<not> startsWith r ''//''
      \<and> list_ex (\<lambda>p. startsWith r p) allowedRedirectPrefixes)"

definition redirectTarget :: "string option \<Rightarrow> string" where
  "redirectTarget redirect =
     (case redirect of
        None \<Rightarrow> defaultRedirect
      | Some r \<Rightarrow> if isAllowedRedirect r then r else defaultRedirect)"

text \<open>
  Modelled from the spec: the handler verifies the link and, when that succeeds, answers
  with a redirect to the target chosen above; \<open>None\<close> stands for its answer to a failed
  verification.
\<close>

definition adminMagicVerify ::
  "(string \<Rightarrow> bool) \<Rightarrow> int \<Rightarrow> string \<Rightarrow> string \<Rightarrow> string option \<Rightarrow> verification_token list
     \<Rightarrow> string option \<times> verification_token list" where
  "adminMagicVerify isAdmin now tok email redirect rows =
     (let (ok, rows') = verifyAdminMagicLink isAdmin now tok email rows
      in (if ok then Some (redirectTarget redirect) else None, rows'))"

section \<open>The rate limiter\<close>















section \<open>Auxiliary facts\<close>

lemma startsWith_iff: "startsWith s p \<longleftrightarrow> (\<exists>r. s = p @ r)"
  unfolding startsWith_def by (metis append_eq_conv_conj append_take_drop_id)

lemma lp_path_facts:
  assumes "startsWith path ''/lp/''"
  shows "path \<noteq> ''/''" "\<not> startsWith path ''/view/''" "path \<noteq> ''/viewer-redirect''"
    "path \<noteq> ''/signup''"
  using assms by (auto simp: startsWith_iff)

lemma gp_path_facts:
  assumes "isGpRoute path"
  shows "path \<noteq> ''/''" "\<not> startsWith path ''/view/''" "path \<noteq> ''/viewer-redirect''"
    "\<not> isPublicPage path" "\<not> startsWith path ''/lp/''"
  using assms unfolding isGpRoute_def gpRoutes_def isPublicPage_def
  by (auto simp: startsWith_iff)

lemma nextPathOf_eq: "nextPathOf req = pathname req @ search req"
  by (simp add: nextPathOf_def)

lemma not_answeredEarlier:
  assumes "\<not> answeredEarlier path"
  shows "path \<noteq> ''/''" "\<not> isPublicPage path" "\<not> startsWith path ''/view/''"
    "path \<noteq> ''/viewer-redirect''" "\<not> startsWith path ''/lp/''" "\<not> isGpRoute path"
  using assms by (auto simp: answeredEarlier_def)

lemma hostPattern_iff_hostGrammar: "hostPattern s \<longleftrightarrow> hostGrammar s"
proof (cases s)
  case Nil
  then show ?thesis by (simp add: hostGrammar_def)
next
  case (Cons c cs)
  show ?thesis
  proof (cases cs)
    case Nil
    with Cons show ?thesis by (auto simp: hostGrammar_def)
  next
    case (Cons d r)
    have "hostGrammar (c # d # r) \<longleftrightarrow>
          isAlnum c \<and> list_all isHostChar (butlast (d # r)) \<and> isAlnum (last (d # r))"
    proof
      assume "hostGrammar (c # d # r)"
      then obtain a m z where e: "c # d # r = a # m @ [z]"
        and p: "isAlnum a" "list_all isHostChar m" "isAlnum z"
        by (auto simp: hostGrammar_def)
      from e have "a = c" "d # r = m @ [z]" by simp_all
      then have "butlast (d # r) = m" "last (d # r) = z" by simp_all
      with p \<open>a = c\<close> show "isAlnum c \<and> list_all isHostChar (butlast (d # r)) \<and> isAlnum (last (d # r))"
        by simp
    next
      assume h: "isAlnum c \<and> list_all isHostChar (butlast (d # r)) \<and> isAlnum (last (d # r))"
      have "c # d # r = c # butlast (d # r) @ [last (d # r)]"
        using append_butlast_last_id[of "d # r"] by simp
      with h show "hostGrammar (c # d # r)"
        unfolding hostGrammar_def by blast
    qed
    with Cons \<open>s = c # cs\<close> show ?thesis by simp
  qed
qed

lemma validateHost_iff:
  "validateHost h \<longleftrightarrow>
     (case h of None \<Rightarrow> False
      | Some s \<Rightarrow> hostGrammar (splitFirst CHR '':'' s) \<and> length (splitFirst CHR '':'' s) \<le> 253)"
proof (cases h)
  case None
  then show ?thesis by (simp add: validateHost_def truthy_def)
next
  case (Some s)
  have "hostGrammar (splitFirst CHR '':'' s) \<Longrightarrow> s \<noteq> []"
    by (auto simp: hostGrammar_def splitFirst_def)
  with Some show ?thesis
    by (auto simp: validateHost_def truthy_def Let_def hostPattern_iff_hostGrammar)
qed

lemma headerIP_no_headers [simp]:
  "headerIP (req\<lparr>x_forwarded_for := None, x_real_ip := None\<rparr>) = None"
  by (simp add: headerIP_def truthy_def)

lemma sanitizePath_no_angle_quote:
  "sanitizePath path = Inr p \<Longrightarrow> list_all (\<lambda>c. \<not> isAngleOrQuote c) p"
  by (auto simp: sanitizePath_def stripAngleQuote_def list_all_iff map_sum_def split: sum.splits)

lemma findUnique_deleteToken: "findUnique tok (deleteToken tok rows) = None"
  by (simp add: findUnique_def deleteToken_def find_None_iff)

lemma findUnique_deleteToken_other:
  "findUnique tok rows = None \<Longrightarrow> findUnique tok (deleteToken tok' rows) = None"
  by (simp add: findUnique_def deleteToken_def find_None_iff)

lemma verify_absent:
  "findUnique tok rows = None \<Longrightarrow> verifyAdminMagicLink isAdmin now tok email rows = (False, rows)"
  by (simp add: verifyAdminMagicLink_def Let_def)

lemma verify_keeps_absent:
  "findUnique tok rows = None \<Longrightarrow>
   findUnique tok (snd (verifyAdminMagicLink isAdmin now tok' email rows)) = None"
  by (simp add: verifyAdminMagicLink_def Let_def findUnique_deleteToken_other
      split: option.splits)

lemma verifyAll_absent:
  "findUnique tok rows = None \<Longrightarrow>
   list_all (\<lambda>(a, ok). if fst (snd a) = tok then \<not> ok else True)
     (zip attempts (fst (verifyAll isAdmin attempts rows)))"
proof (induction attempts arbitrary: rows)
  case Nil
  then show ?case by simp
next
  case (Cons a attempts)
  obtain now tok' email where a: "a = (now, tok', email)" by (cases a) auto
  obtain ok rows' where v: "verifyAdminMagicLink isAdmin now tok' email rows = (ok, rows')"
    by (cases "verifyAdminMagicLink isAdmin now tok' email rows") auto
  have absent': "findUnique tok rows' = None"
    using verify_keeps_absent[OF Cons.prems, of isAdmin now tok' email] v by simp
  have first: "tok' = tok \<Longrightarrow> \<not> ok"
    using verify_absent[OF Cons.prems, of isAdmin now email] v by simp
  obtain oks rows'' where w: "verifyAll isAdmin attempts rows' = (oks, rows'')"
    by (cases "verifyAll isAdmin attempts rows'") auto
  from Cons.IH[OF absent'] w
  have rest: "list_all (\<lambda>(a, ok). if fst (snd a) = tok then \<not> ok else True) (zip attempts oks)"
    by simp
  show ?case
    using rest first by (simp add: a v w)
qed

lemma filter_identifier_purged:
  "filter (\<lambda>r. mlc_identifier r = i) (filter (\<lambda>r. mlc_identifier r \<noteq> i) rows) = []"
  by (induction rows) auto

lemma filter_identifier_other:
  "j \<noteq> i \<Longrightarrow>
   filter (\<lambda>r. mlc_identifier r = j) (filter (\<lambda>r. mlc_identifier r \<noteq> i) rows)
   = filter (\<lambda>r. mlc_identifier r = j) rows"
  by (induction rows) auto








section \<open>Properties of the app middleware\<close>

text \<open>
  C10. A request for the path \<open>/\<close> is redirected to \<open>/login\<close> whatever the session token
  is: the answer does not depend on the token, so neither the route-group guards nor the
  login-page redirect of authenticated users apply to the root path.
\<close>

theorem root_redirects_to_login:
  "pathname req = ''/'' \<Longrightarrow>
     AppMiddleware now req = Inr (Redirect ''/login'' [])
     \<and> AppMiddleware now (req\<lparr>token := t\<rparr>) = AppMiddleware now req"
  by (simp add: AppMiddleware_def)

theorem root_redirects_to_login_witness:
  "AppMiddleware 1700000000000
     \<lparr>pathname = ''/'', search = [], searchParams = [],
      token = Some \<lparr>jwt_email = Some ''gp@example.com'', jwt_role = Some ''GP'',
                    jwt_createdAt = Some 1600000000000\<rparr>,
      url_resolves = (\<noteq>) ''https://''\<rparr>
   = Inr (Redirect ''/login'' [])"
  using root_redirects_to_login
    [of "\<lparr>pathname = ''/'', search = [], searchParams = [],
          token = Some \<lparr>jwt_email = Some ''gp@example.com'', jwt_role = Some ''GP'',
                        jwt_createdAt = Some 1600000000000\<rparr>,
      url_resolves = (\<noteq>) ''https://''\<rparr>" 1700000000000]
  by simp

text \<open>
  C3. A request without session token for a path under \<open>/lp/\<close> other than the public pages
  \<open>/lp/login\<close> and \<open>/lp/onboard\<close> is redirected to \<open>/lp/login\<close> with the path and query
  as the parameter \<open>next\<close>. A request with a token of role LP for a path of the GP route
  group is redirected to \<open>/viewer-portal\<close>. A request with a token of role GP for a path of
  the LP route group is let through.
\<close>

theorem route_guards:
  "(startsWith (pathname req) ''/lp/'' \<and> pathname req \<noteq> ''/lp/login''
      \<and> pathname req \<noteq> ''/lp/onboard'' \<and> token req = None
    \<longrightarrow> AppMiddleware now req
          = Inr (Redirect ''/lp/login'' [(''next'', pathname req @ search req)]))
   \<and> (isGpRoute (pathname req) \<and> token req = Some t \<and> truthy (jwt_email t)
        \<and> jwt_role t = Some ''LP''
    \<longrightarrow> AppMiddleware now req = Inr (Redirect ''/viewer-portal'' []))
   \<and> (startsWith (pathname req) ''/lp/'' \<and> pathname req \<noteq> ''/lp/login''
        \<and> pathname req \<noteq> ''/lp/onboard'' \<and> token req = Some t \<and> truthy (jwt_email t)
        \<and> jwt_role t = Some ''GP''
    \<longrightarrow> AppMiddleware now req = Inr Next)"
proof (intro conjI impI)
  assume "startsWith (pathname req) ''/lp/'' \<and> pathname req \<noteq> ''/lp/login''
      \<and> pathname req \<noteq> ''/lp/onboard'' \<and> token req = None"
  then show "AppMiddleware now req
          = Inr (Redirect ''/lp/login'' [(''next'', pathname req @ search req)])"
    using lp_path_facts[of "pathname req"]
    by (simp add: AppMiddleware_def isPublicPage_def userEmail_def truthy_def nextPathOf_eq)
next
  assume "isGpRoute (pathname req) \<and> token req = Some t \<and> truthy (jwt_email t)
        \<and> jwt_role t = Some ''LP''"
  then show "AppMiddleware now req = Inr (Redirect ''/viewer-portal'' [])"
    using gp_path_facts[of "pathname req"]
    by (simp add: AppMiddleware_def userEmail_def userRole_def truthy_def)
next
  assume "startsWith (pathname req) ''/lp/'' \<and> pathname req \<noteq> ''/lp/login''
        \<and> pathname req \<noteq> ''/lp/onboard'' \<and> token req = Some t \<and> truthy (jwt_email t)
        \<and> jwt_role t = Some ''GP''"
  then show "AppMiddleware now req = Inr Next"
    using lp_path_facts[of "pathname req"]
    by (simp add: AppMiddleware_def isPublicPage_def userEmail_def userRole_def truthy_def)
qed

theorem route_guards_witness:
  "AppMiddleware 1700000000000
     \<lparr>pathname = ''/lp/docs'', search = ''?tab=k1'', searchParams = [(''tab'', ''k1'')],
      token = None, url_resolves = (\<noteq>) ''https://''\<rparr>
   = Inr (Redirect ''/lp/login'' [(''next'', ''/lp/docs?tab=k1'')])
   \<and> AppMiddleware 1700000000000
     \<lparr>pathname = ''/dashboard'', search = [], searchParams = [],
      token = Some \<lparr>jwt_email = Some ''lp@example.com'', jwt_role = Some ''LP'',
                    jwt_createdAt = None\<rparr>,
      url_resolves = (\<noteq>) ''https://''\<rparr>
   = Inr (Redirect ''/viewer-portal'' [])
   \<and> AppMiddleware 1700000000000
     \<lparr>pathname = ''/lp/docs'', search = [], searchParams = [],
      token = Some \<lparr>jwt_email = Some ''gp@example.com'', jwt_role = Some ''GP'',
                    jwt_createdAt = None\<rparr>,
      url_resolves = (\<noteq>) ''https://''\<rparr>
   = Inr Next"
  using route_guards
      [where req = "\<lparr>pathname = ''/lp/docs'', search = ''?tab=k1'',
                     searchParams = [(''tab'', ''k1'')], token = None, url_resolves = (\<noteq>) ''https://''\<rparr>"
         and now = 1700000000000]
    route_guards
      [where req = "\<lparr>pathname = ''/dashboard'', search = [], searchParams = [],
            token = Some \<lparr>jwt_email = Some ''lp@example.com'', jwt_role = Some ''LP'',
                          jwt_createdAt = None\<rparr>,
      url_resolves = (\<noteq>) ''https://''\<rparr>"
         and t = "\<lparr>jwt_email = Some ''lp@example.com'', jwt_role = Some ''LP'',
                   jwt_createdAt = None\<rparr>"
         and now = 1700000000000]
    route_guards
      [where req = "\<lparr>pathname = ''/lp/docs'', search = [], searchParams = [],
            token = Some \<lparr>jwt_email = Some ''gp@example.com'', jwt_role = Some ''GP'',
                          jwt_createdAt = None\<rparr>,
      url_resolves = (\<noteq>) ''https://''\<rparr>"
         and t = "\<lparr>jwt_email = Some ''gp@example.com'', jwt_role = Some ''GP'',
                   jwt_createdAt = None\<rparr>"
         and now = 1700000000000]
  by (simp add: isGpRoute_def gpRoutes_def startsWith_def truthy_def)

text \<open>
  C8, as the claim states it, fails: the welcome gate is only reached by paths that no
  earlier branch answers. A GP created five seconds ago who asks for \<open>/dashboard\<close> without
  an invitation is let through by the GP route guard.
\<close>

theorem welcome_gate_counterexample:
  "truthy (userEmail \<lparr>pathname = ''/dashboard'', search = [], searchParams = [],
      token = Some \<lparr>jwt_email = Some ''gp@example.com'', jwt_role = Some ''GP'',
                    jwt_createdAt = Some 1700000000000\<rparr>,
      url_resolves = (\<noteq>) ''https://''\<rparr>)
   \<and> recentlyCreated 1700000005000 \<lparr>pathname = ''/dashboard'', search = [], searchParams = [],
      token = Some \<lparr>jwt_email = Some ''gp@example.com'', jwt_role = Some ''GP'',
                    jwt_createdAt = Some 1700000000000\<rparr>,
      url_resolves = (\<noteq>) ''https://''\<rparr>
   \<and> \<not> searchParams_has \<lparr>pathname = ''/dashboard'', search = [], searchParams = [],
      token = Some \<lparr>jwt_email = Some ''gp@example.com'', jwt_role = Some ''GP'',
                    jwt_createdAt = Some 1700000000000\<rparr>,
      url_resolves = (\<noteq>) ''https://''\<rparr> ''invitation''
   \<and> AppMiddleware 1700000005000
     \<lparr>pathname = ''/dashboard'', search = [], searchParams = [],
      token = Some \<lparr>jwt_email = Some ''gp@example.com'', jwt_role = Some ''GP'',
                    jwt_createdAt = Some 1700000000000\<rparr>,
      url_resolves = (\<noteq>) ''https://''\<rparr>
   = Inr Next"
  by (simp add: AppMiddleware_def isPublicPage_def isGpRoute_def gpRoutes_def startsWith_def
      userEmail_def userRole_def truthy_def recentlyCreated_def userCreatedAt_def
      searchParams_has_def)

text \<open>
  C8, amended. For a request with a token that carries an e-mail address and a creation time
  later than ten seconds before now, for a path other than \<open>/welcome\<close> that no earlier
  branch answers: without the parameter \<open>invitation\<close> the answer is a redirect to
  \<open>/welcome\<close>; with it the welcome gate is skipped, and the answer is that of the rules
  behind the gate: on a login page the outcome of the login-page redirect, which is a
  redirect to the decoded \<open>next\<close> value or to the default, or the exception raised for a
  \<open>next\<close> value that does not decode or is no URL; on any other path no redirect at all.
\<close>

theorem welcome_gate:
  "(truthy (userEmail req) \<and> recentlyCreated now req \<and> pathname req \<noteq> ''/welcome''
      \<and> \<not> answeredEarlier (pathname req) \<and> \<not> searchParams_has req ''invitation''
    \<longrightarrow> AppMiddleware now req = Inr (Redirect ''/welcome'' []))
   \<and> (truthy (userEmail req) \<and> recentlyCreated now req \<and> pathname req \<noteq> ''/welcome''
      \<and> \<not> answeredEarlier (pathname req) \<and> searchParams_has req ''invitation''
    \<longrightarrow> AppMiddleware now req
          = (if isLoginPage (pathname req) then loginPageRedirect req
             else if pathname req = ''/viewer-portal'' then Inr Next
             else Inr NoResponse))"
  using not_answeredEarlier[of "pathname req"]
  by (auto simp add: AppMiddleware_def)

theorem welcome_gate_witness:
  "AppMiddleware 1700000005000
     \<lparr>pathname = ''/onboarding'', search = [], searchParams = [],
      token = Some \<lparr>jwt_email = Some ''new@example.com'', jwt_role = Some ''GP'',
                    jwt_createdAt = Some 1700000000000\<rparr>,
      url_resolves = (\<noteq>) ''https://''\<rparr>
   = Inr (Redirect ''/welcome'' [])
   \<and> AppMiddleware 1700000005000
     \<lparr>pathname = ''/onboarding'', search = ''?invitation=abc'',
      searchParams = [(''invitation'', ''abc'')],
      token = Some \<lparr>jwt_email = Some ''new@example.com'', jwt_role = Some ''GP'',
                    jwt_createdAt = Some 1700000000000\<rparr>,
      url_resolves = (\<noteq>) ''https://''\<rparr>
   = Inr NoResponse
   \<and> AppMiddleware 1700000005000
     \<lparr>pathname = ''/login'', search = ''?invitation=abc&next=%2Fteam'',
      searchParams = [(''invitation'', ''abc''), (''next'', ''/team'')],
      token = Some \<lparr>jwt_email = Some ''new@example.com'', jwt_role = Some ''GP'',
                    jwt_createdAt = Some 1700000000000\<rparr>,
      url_resolves = (\<noteq>) ''https://''\<rparr>
   = Inr (Redirect ''/team'' [])
   \<and> AppMiddleware 1700000005000
     \<lparr>pathname = ''/login'', search = ''?invitation=abc&next=https%3A%2F%2F'',
      searchParams = [(''invitation'', ''abc''), (''next'', ''https://'')],
      token = Some \<lparr>jwt_email = Some ''new@example.com'', jwt_role = Some ''GP'',
                    jwt_createdAt = Some 1700000000000\<rparr>,
      url_resolves = (\<noteq>) ''https://''\<rparr>
   = Inl TypeError"
proof -
  let ?t = "Some \<lparr>jwt_email = Some ''new@example.com'', jwt_role = Some ''GP'',
                   jwt_createdAt = Some 1700000000000\<rparr>"
  let ?r1 = "\<lparr>pathname = ''/onboarding'', search = [], searchParams = [], token = ?t,
              url_resolves = (\<noteq>) ''https://''\<rparr>"
  let ?r2 = "\<lparr>pathname = ''/onboarding'', search = ''?invitation=abc'',
              searchParams = [(''invitation'', ''abc'')], token = ?t,
              url_resolves = (\<noteq>) ''https://''\<rparr>"
  let ?r3 = "\<lparr>pathname = ''/login'', search = ''?invitation=abc&next=%2Fteam'',
              searchParams = [(''invitation'', ''abc''), (''next'', ''/team'')], token = ?t,
              url_resolves = (\<noteq>) ''https://''\<rparr>"
  let ?r4 = "\<lparr>pathname = ''/login'', search = ''?invitation=abc&next=https%3A%2F%2F'',
              searchParams = [(''invitation'', ''abc''), (''next'', ''https://'')], token = ?t,
              url_resolves = (\<noteq>) ''https://''\<rparr>"
  have l3: "loginPageRedirect ?r3 = Inr (Redirect ''/team'' [])" by code_simp
  have l4: "loginPageRedirect ?r4 = Inl TypeError" by code_simp
  have c1: "AppMiddleware 1700000005000 ?r1 = Inr (Redirect ''/welcome'' [])"
    using welcome_gate [where req = ?r1 and now = 1700000005000]
    by (simp add: answeredEarlier_def isPublicPage_def isGpRoute_def gpRoutes_def
        startsWith_def userEmail_def truthy_def recentlyCreated_def userCreatedAt_def
        searchParams_has_def)
  have c2: "AppMiddleware 1700000005000 ?r2 = Inr NoResponse"
    using welcome_gate [where req = ?r2 and now = 1700000005000]
    by (simp add: answeredEarlier_def isPublicPage_def isGpRoute_def gpRoutes_def
        startsWith_def userEmail_def truthy_def recentlyCreated_def userCreatedAt_def
        searchParams_has_def isLoginPage_def)
  have c3: "AppMiddleware 1700000005000 ?r3 = Inr (Redirect ''/team'' [])"
    using welcome_gate [where req = ?r3 and now = 1700000005000] l3
    by (simp add: answeredEarlier_def isPublicPage_def isGpRoute_def gpRoutes_def
        startsWith_def userEmail_def truthy_def recentlyCreated_def userCreatedAt_def
        searchParams_has_def isLoginPage_def)
  have c4: "AppMiddleware 1700000005000 ?r4 = Inl TypeError"
    using welcome_gate [where req = ?r4 and now = 1700000005000] l4
    by (simp add: answeredEarlier_def isPublicPage_def isGpRoute_def gpRoutes_def
        startsWith_def userEmail_def truthy_def recentlyCreated_def userCreatedAt_def
        searchParams_has_def isLoginPage_def)
  from c1 c2 c3 c4 show ?thesis by simp
qed

section \<open>Properties of the entry proxy\<close>

text \<open>
  C5, as the claim states it, fails: \<open>validateHost\<close> judges the text before the first colon
  of the header, so a host with a port, which the grammar does not match, is accepted and
  the request is dispatched.
\<close>

theorem host_validation_counterexample:
  "\<not> hostGrammar ''localhost:3000''
   \<and> validateHost (Some ''localhost:3000'')
   \<and> proxy \<lparr>NODE_ENV_development = False, NEXT_PUBLIC_PLATFORM_DOMAIN = None,
             NEXTAUTH_URL = Unset, isWebhookPath = (=) (Some ''hooks.fundroom.ai''), BLOCKED_PATHNAMES = []\<rparr>
        \<lparr>nextUrl_pathname = ''/dashboard'', host = Some ''localhost:3000'',
         x_forwarded_for = None, x_real_ip = None, x_client_ip = None\<rparr>
     = App None"
proof -
  have "\<not> hostGrammar ''localhost:3000''"
    unfolding hostPattern_iff_hostGrammar [symmetric] by code_simp
  moreover have "validateHost (Some ''localhost:3000'')" by code_simp
  moreover have "proxy \<lparr>NODE_ENV_development = False, NEXT_PUBLIC_PLATFORM_DOMAIN = None,
             NEXTAUTH_URL = Unset, isWebhookPath = (=) (Some ''hooks.fundroom.ai''), BLOCKED_PATHNAMES = []\<rparr>
        \<lparr>nextUrl_pathname = ''/dashboard'', host = Some ''localhost:3000'',
         x_forwarded_for = None, x_real_ip = None, x_client_ip = None\<rparr>
     = App None" by code_simp
  ultimately show ?thesis by blast
qed

text \<open>
  C5, amended. \<open>validateHost\<close> accepts a \<open>Host\<close> value exactly when the value is present
  and its part before the first colon matches the grammar and has at most 253 characters.
  When it rejects and sanitizing the path has not raised, the proxy answers with the JSON
  error \<open>Invalid host header\<close> and status 400; when it accepts, the proxy does not.
\<close>

theorem host_validation:
  "(validateHost h \<longleftrightarrow>
      (case h of None \<Rightarrow> False
       | Some s \<Rightarrow> hostGrammar (splitFirst CHR '':'' s) \<and> length (splitFirst CHR '':'' s) \<le> 253))
   \<and> (\<not> validateHost (host req) \<and> sanitizePath (nextUrl_pathname req) = Inr p
        \<longrightarrow> proxy env req = ErrorResponse ''Invalid host header'' 400)
   \<and> (validateHost (host req) \<longrightarrow> proxy env req \<noteq> ErrorResponse ''Invalid host header'' 400)"
proof (intro conjI impI)
  show "validateHost h \<longleftrightarrow>
      (case h of None \<Rightarrow> False
       | Some s \<Rightarrow> hostGrammar (splitFirst CHR '':'' s) \<and> length (splitFirst CHR '':'' s) \<le> 253)"
    by (rule validateHost_iff)
next
  assume "\<not> validateHost (host req) \<and> sanitizePath (nextUrl_pathname req) = Inr p"
  then show "proxy env req = ErrorResponse ''Invalid host header'' 400"
    by (simp add: proxy_def)
next
  assume "validateHost (host req)"
  then show "proxy env req \<noteq> ErrorResponse ''Invalid host header'' 400"
    by (auto simp: proxy_def Let_def split: sum.splits bool.splits)
qed

theorem host_validation_witness:
  "validateHost (Some ''app.fundroom.ai'')
   \<and> proxy \<lparr>NODE_ENV_development = False, NEXT_PUBLIC_PLATFORM_DOMAIN = None,
             NEXTAUTH_URL = Unset, isWebhookPath = (\<lambda>h. False), BLOCKED_PATHNAMES = []\<rparr>
        \<lparr>nextUrl_pathname = ''/dashboard'', host = Some ''bad_host/x'',
         x_forwarded_for = None, x_real_ip = None, x_client_ip = None\<rparr>
     = ErrorResponse ''Invalid host header'' 400
   \<and> proxy \<lparr>NODE_ENV_development = False, NEXT_PUBLIC_PLATFORM_DOMAIN = None,
             NEXTAUTH_URL = Unset, isWebhookPath = (\<lambda>h. False), BLOCKED_PATHNAMES = []\<rparr>
        \<lparr>nextUrl_pathname = ''/dashboard'', host = Some ''app.fundroom.ai'',
         x_forwarded_for = None, x_real_ip = None, x_client_ip = None\<rparr>
     \<noteq> ErrorResponse ''Invalid host header'' 400"
proof -
  have p: "hostPattern ''app.fundroom.ai''" by code_simp
  have s: "splitFirst CHR '':'' ''app.fundroom.ai'' = ''app.fundroom.ai''" by code_simp
  have g: "hostGrammar (splitFirst CHR '':'' ''app.fundroom.ai'')"
    using p by (simp only: s hostPattern_iff_hostGrammar)
  have l: "length (splitFirst CHR '':'' ''app.fundroom.ai'') \<le> 253"
    by (simp only: s) simp
  have v: "validateHost (Some ''app.fundroom.ai'')"
    using host_validation [where h = "Some ''app.fundroom.ai''"] g l by simp
  have b: "\<not> validateHost (Some ''bad_host/x'')" by code_simp
  have q: "sanitizePath ''/dashboard'' = Inr ''/dashboard''" by code_simp
  have r: "proxy \<lparr>NODE_ENV_development = False, NEXT_PUBLIC_PLATFORM_DOMAIN = None,
             NEXTAUTH_URL = Unset, isWebhookPath = (\<lambda>h. False), BLOCKED_PATHNAMES = []\<rparr>
        \<lparr>nextUrl_pathname = ''/dashboard'', host = Some ''bad_host/x'',
         x_forwarded_for = None, x_real_ip = None, x_client_ip = None\<rparr>
     = ErrorResponse ''Invalid host header'' 400"
    using host_validation
      [where req = "\<lparr>nextUrl_pathname = ''/dashboard'', host = Some ''bad_host/x'',
         x_forwarded_for = None, x_real_ip = None, x_client_ip = None\<rparr>"
         and p = "''/dashboard''"] b q
    by simp
  have a: "proxy \<lparr>NODE_ENV_development = False, NEXT_PUBLIC_PLATFORM_DOMAIN = None,
             NEXTAUTH_URL = Unset, isWebhookPath = (\<lambda>h. False), BLOCKED_PATHNAMES = []\<rparr>
        \<lparr>nextUrl_pathname = ''/dashboard'', host = Some ''app.fundroom.ai'',
         x_forwarded_for = None, x_real_ip = None, x_client_ip = None\<rparr>
     \<noteq> ErrorResponse ''Invalid host header'' 400"
    using host_validation
      [where req = "\<lparr>nextUrl_pathname = ''/dashboard'', host = Some ''app.fundroom.ai'',
         x_forwarded_for = None, x_real_ip = None, x_client_ip = None\<rparr>"] v
    by simp
  from v r a show ?thesis by blast
qed

text \<open>
  C9, as the claim states it, fails: a client address that matches neither pattern is
  dropped, the request is not rejected. Here it goes on to the app middleware.
\<close>

theorem malformed_client_ip_counterexample:
  "headerIP \<lparr>nextUrl_pathname = ''/dashboard'', host = Some ''app.example.com'',
         x_forwarded_for = Some ''not-an-ip, 10.0.0.1'', x_real_ip = None, x_client_ip = None\<rparr>
     = Some ''not-an-ip''
   \<and> \<not> ipv4Pattern ''not-an-ip'' \<and> \<not> ipv6Pattern ''not-an-ip''
   \<and> proxy \<lparr>NODE_ENV_development = False, NEXT_PUBLIC_PLATFORM_DOMAIN = None,
             NEXTAUTH_URL = Hostname ''app.example.com'', isWebhookPath = (=) (Some ''hooks.fundroom.ai''),
             BLOCKED_PATHNAMES = []\<rparr>
        \<lparr>nextUrl_pathname = ''/dashboard'', host = Some ''app.example.com'',
         x_forwarded_for = Some ''not-an-ip, 10.0.0.1'', x_real_ip = None, x_client_ip = None\<rparr>
     = App None"
  by code_simp

text \<open>
  C9, amended. When the client address read from the headers matches neither the IPv4 nor
  the IPv6 pattern, \<open>validateClientIP\<close> returns \<open>null\<close>, no \<open>x-client-ip\<close> header is set,
  and the proxy decides as it does for the same request without \<open>x-forwarded-for\<close> and
  \<open>x-real-ip\<close>.
\<close>

theorem malformed_client_ip:
  "truthy (headerIP req) \<and> \<not> ipv4Pattern (the (headerIP req))
     \<and> \<not> ipv6Pattern (the (headerIP req))
   \<longrightarrow> validateClientIP req = None
       \<and> proxy env req = proxy env (req\<lparr>x_forwarded_for := None, x_real_ip := None\<rparr>)"
proof
  assume h: "truthy (headerIP req) \<and> \<not> ipv4Pattern (the (headerIP req))
     \<and> \<not> ipv6Pattern (the (headerIP req))"
  then have v: "validateClientIP req = None"
    by (simp add: validateClientIP_def)
  have w: "validateClientIP (req\<lparr>x_forwarded_for := None, x_real_ip := None\<rparr>) = None"
    by (simp add: validateClientIP_def truthy_def)
  have "proxy env req = proxy env (req\<lparr>x_forwarded_for := None, x_real_ip := None\<rparr>)"
    by (simp add: proxy_def v w Let_def split: sum.splits bool.splits)
  with v show "validateClientIP req = None
       \<and> proxy env req = proxy env (req\<lparr>x_forwarded_for := None, x_real_ip := None\<rparr>)"
    by simp
qed

theorem malformed_client_ip_witness:
  "validateClientIP
        \<lparr>nextUrl_pathname = ''/dashboard'', host = Some ''app.example.com'',
         x_forwarded_for = Some ''not-an-ip, 10.0.0.1'', x_real_ip = None, x_client_ip = None\<rparr>
     = None
   \<and> proxy \<lparr>NODE_ENV_development = False, NEXT_PUBLIC_PLATFORM_DOMAIN = None,
             NEXTAUTH_URL = Hostname ''app.example.com'', isWebhookPath = (\<lambda>h. False),
             BLOCKED_PATHNAMES = []\<rparr>
        \<lparr>nextUrl_pathname = ''/dashboard'', host = Some ''app.example.com'',
         x_forwarded_for = Some ''not-an-ip, 10.0.0.1'', x_real_ip = None, x_client_ip = None\<rparr>
     = proxy \<lparr>NODE_ENV_development = False, NEXT_PUBLIC_PLATFORM_DOMAIN = None,
             NEXTAUTH_URL = Hostname ''app.example.com'', isWebhookPath = (\<lambda>h. False),
             BLOCKED_PATHNAMES = []\<rparr>
        \<lparr>nextUrl_pathname = ''/dashboard'', host = Some ''app.example.com'',
         x_forwarded_for = None, x_real_ip = None, x_client_ip = None\<rparr>"
proof -
  have h: "headerIP \<lparr>nextUrl_pathname = ''/dashboard'', host = Some ''app.example.com'',
         x_forwarded_for = Some ''not-an-ip, 10.0.0.1'', x_real_ip = None, x_client_ip = None\<rparr>
     = Some ''not-an-ip''" by code_simp
  have n: "\<not> ipv4Pattern ''not-an-ip''" "\<not> ipv6Pattern ''not-an-ip''" by code_simp+
  show ?thesis
    using malformed_client_ip
      [where req = "\<lparr>nextUrl_pathname = ''/dashboard'', host = Some ''app.example.com'',
         x_forwarded_for = Some ''not-an-ip, 10.0.0.1'', x_real_ip = None, x_client_ip = None\<rparr>"
         and env = "\<lparr>NODE_ENV_development = False, NEXT_PUBLIC_PLATFORM_DOMAIN = None,
             NEXTAUTH_URL = Hostname ''app.example.com'', isWebhookPath = (\<lambda>h. False),
             BLOCKED_PATHNAMES = []\<rparr>"] h n
    by (simp add: truthy_def)
qed

text \<open>
  C6. The sanitized path is meant to hold no \<open>..\<close> and no double slash, also when they
  arrive percent-encoded. \<open>sanitizePath\<close> strips dots and slashes first and decodes
  afterwards, so encoded dots and slashes survive: the two paths below come out with a
  \<open>..\<close> and with a double slash.
\<close>

theorem sanitizePath_keeps_encoded_traversal:
  "sanitizePath ''/files/%2e%2e%2fsecret'' = Inr ''/files/../secret''
   \<and> sanitizePath ''/a%2f%2fb'' = Inr ''/a//b''"
  by code_simp

section \<open>Properties of the magic links\<close>

text \<open>
  C1, as the claim states it, fails: \<open>verifyAdminMagicLink\<close> first asks whether the address
  is an admin, and answers \<open>false\<close> without reading the table when it is not. Below, the
  stored record matches the token and the identifier and has not expired, yet verification
  fails and the record stays.
\<close>

theorem verify_lifecycle_counterexample:
  "findUnique ''tok-1''
      [\<lparr>vt_identifier = ''admin-magic:admin@example.com'', vt_token = ''tok-1'',
        vt_expires = 3600000\<rparr>]
     = Some \<lparr>vt_identifier = ''admin-magic:admin@example.com'', vt_token = ''tok-1'',
             vt_expires = 3600000\<rparr>
   \<and> adminIdentifier '' Admin@Example.com '' = ''admin-magic:admin@example.com''
   \<and> \<not> (3600000::int) < 1000
   \<and> verifyAdminMagicLink ((=) ''owner@example.com'') 1000 ''tok-1'' '' Admin@Example.com ''
      [\<lparr>vt_identifier = ''admin-magic:admin@example.com'', vt_token = ''tok-1'',
        vt_expires = 3600000\<rparr>]
     = (False, [\<lparr>vt_identifier = ''admin-magic:admin@example.com'', vt_token = ''tok-1'',
                 vt_expires = 3600000\<rparr>])"
  by code_simp

text \<open>
  C1, amended. Verification fails and leaves the table as it is when the normalized address
  is no admin, when no record has the token, and when the record's identifier differs from
  \<open>admin-magic:\<close> followed by the trimmed, lower-cased address. For an admin address and a
  record with the expected identifier: if the expiry has passed the record is deleted and
  verification fails, otherwise the record is deleted and verification succeeds. In the
  table that such a deletion leaves, every attempt of any later series of verifications
  that presents the same token fails.
\<close>

theorem verify_lifecycle:
  "(\<not> isAdmin (normalizeEmail email)
      \<longrightarrow> verifyAdminMagicLink isAdmin now tok email rows = (False, rows))
   \<and> (findUnique tok rows = None
      \<longrightarrow> verifyAdminMagicLink isAdmin now tok email rows = (False, rows))
   \<and> (isAdmin (normalizeEmail email) \<and> findUnique tok rows = Some r
        \<and> vt_identifier r \<noteq> adminIdentifier email
      \<longrightarrow> verifyAdminMagicLink isAdmin now tok email rows = (False, rows))
   \<and> (isAdmin (normalizeEmail email) \<and> findUnique tok rows = Some r
        \<and> vt_identifier r = adminIdentifier email \<and> vt_expires r < now
      \<longrightarrow> verifyAdminMagicLink isAdmin now tok email rows = (False, deleteToken tok rows))
   \<and> (isAdmin (normalizeEmail email) \<and> findUnique tok rows = Some r
        \<and> vt_identifier r = adminIdentifier email \<and> \<not> vt_expires r < now
      \<longrightarrow> verifyAdminMagicLink isAdmin now tok email rows = (True, deleteToken tok rows))
   \<and> list_all (\<lambda>(a, ok). if fst (snd a) = tok then \<not> ok else True)
        (zip attempts (fst (verifyAll isAdmin' attempts (deleteToken tok rows))))"
proof (intro conjI impI)
  show "list_all (\<lambda>(a, ok). if fst (snd a) = tok then \<not> ok else True)
        (zip attempts (fst (verifyAll isAdmin' attempts (deleteToken tok rows))))"
    by (rule verifyAll_absent) (rule findUnique_deleteToken)
qed (simp_all add: verifyAdminMagicLink_def Let_def adminIdentifier_def)

theorem verify_lifecycle_witness:
  "verifyAdminMagicLink ((=) ''admin@example.com'') 1000 ''tok-1'' '' Admin@Example.com ''
      [\<lparr>vt_identifier = ''admin-magic:admin@example.com'', vt_token = ''tok-1'',
        vt_expires = 3600000\<rparr>]
     = (True, [])
   \<and> fst (verifyAll ((=) ''admin@example.com'')
         [(2000, ''tok-1'', ''admin@example.com'')] []) = [False]"
proof -
  let ?R = "\<lparr>vt_identifier = ''admin-magic:admin@example.com'', vt_token = ''tok-1'',
             vt_expires = 3600000\<rparr>"
  have a: "((=) ''admin@example.com'') (normalizeEmail '' Admin@Example.com '')" by code_simp
  have f: "findUnique ''tok-1'' [?R] = Some ?R" by code_simp
  have i: "vt_identifier ?R = adminIdentifier '' Admin@Example.com ''" by code_simp
  have e: "\<not> vt_expires ?R < 1000" by simp
  have d: "deleteToken ''tok-1'' [?R] = []" by code_simp
  from verify_lifecycle
    [where isAdmin = "(=) ''admin@example.com''" and email = "'' Admin@Example.com ''"
       and now = 1000 and tok = "''tok-1''" and rows = "[?R]" and r = ?R
       and isAdmin' = "(=) ''admin@example.com''"
       and attempts = "[(2000, ''tok-1'', ''admin@example.com'')]"]
    a f i e d
  show ?thesis
    by (cases "fst (verifyAll ((=) ''admin@example.com'')
         [(2000, ''tok-1'', ''admin@example.com'')] [])")
       (simp_all split: prod.splits)
qed

text \<open>
  C7, as the claim states it, fails for the admin variant: \<open>createAdminMagicLink\<close> deletes
  nothing, so two links issued for one address leave two live rows with one identifier.
\<close>

theorem issuance_uniqueness_counterexample:
  "snd (createAdminMagicLink ((=) ''admin@example.com'') 1000 ''uuid-2'' ''admin@example.com''
          None ''https://app.fundroom.ai''
          (snd (createAdminMagicLink ((=) ''admin@example.com'') 0 ''uuid-1''
                  ''admin@example.com'' None ''https://app.fundroom.ai'' [])))
   = [\<lparr>vt_identifier = ''admin-magic:admin@example.com'', vt_token = ''uuid-1'',
        vt_expires = 3600000\<rparr>,
      \<lparr>vt_identifier = ''admin-magic:admin@example.com'', vt_token = ''uuid-2'',
        vt_expires = 3601000\<rparr>]"
  by code_simp

text \<open>
  C7, amended. The e-mail login variant purges before it creates: once it has passed its
  URL parsing, the table holds exactly one row with the lower-cased address as identifier,
  and the rows of every other identifier are the ones it held before; when the parsing fails
  the table is unchanged. The admin variant purges nothing: the table it leaves starts with
  the rows it found.
\<close>

theorem issuance_uniqueness:
  "(sendVerificationRequestEmail True sendOk now randomHex email url rows = (res, rows')
      \<longrightarrow> length (filter (\<lambda>r. mlc_identifier r = toLowerCase email) rows') = 1
          \<and> (\<forall>j. j \<noteq> toLowerCase email \<longrightarrow>
                 filter (\<lambda>r. mlc_identifier r = j) rows'
                 = filter (\<lambda>r. mlc_identifier r = j) rows))
   \<and> (sendVerificationRequestEmail False sendOk now randomHex email url rows = (res, rows')
      \<longrightarrow> rows' = rows)
   \<and> (createAdminMagicLink isAdmin now uuid email redirectPath baseUrl vrows = (out, vrows')
      \<longrightarrow> prefix vrows vrows')"
proof (intro conjI impI)
  assume "sendVerificationRequestEmail True sendOk now randomHex email url rows = (res, rows')"
  then have r: "rows' = filter (\<lambda>r. mlc_identifier r \<noteq> toLowerCase email) rows
      @ [\<lparr>mlc_identifier = toLowerCase email, mlc_token = randomHex, mlc_callbackUrl = url,
          mlc_authTokenHash = [], mlc_expires = now + 30 * 60 * 1000\<rparr>]"
    by (simp add: sendVerificationRequestEmail_def Let_def)
  show "length (filter (\<lambda>r. mlc_identifier r = toLowerCase email) rows') = 1"
    by (simp add: r filter_identifier_purged)
  show "\<forall>j. j \<noteq> toLowerCase email \<longrightarrow>
                 filter (\<lambda>r. mlc_identifier r = j) rows'
                 = filter (\<lambda>r. mlc_identifier r = j) rows"
    by (auto simp add: r intro!: filter_cong)
next
  assume "sendVerificationRequestEmail False sendOk now randomHex email url rows = (res, rows')"
  then show "rows' = rows"
    by (simp add: sendVerificationRequestEmail_def)
next
  assume "createAdminMagicLink isAdmin now uuid email redirectPath baseUrl vrows = (out, vrows')"
  then show "prefix vrows vrows'"
    by (auto simp: createAdminMagicLink_def createToken_def Let_def
        split: if_splits sum.splits)
qed

theorem issuance_uniqueness_witness:
  "length (filter (\<lambda>r. mlc_identifier r = ''lp@example.com'')
     (snd (sendVerificationRequestEmail True True 1000 ''aa11'' ''LP@Example.com''
        ''https://app.fundroom.ai/api/auth/callback/email''
        [\<lparr>mlc_identifier = ''lp@example.com'', mlc_token = ''0f0f'',
          mlc_callbackUrl = ''https://app.fundroom.ai/api/auth/callback/email'',
          mlc_authTokenHash = [], mlc_expires = 500\<rparr>]))) = 1
   \<and> snd (sendVerificationRequestEmail False True 1000 ''aa11'' ''LP@Example.com''
        ''not a url'' []) = []
   \<and> prefix [\<lparr>vt_identifier = ''admin-magic:admin@example.com'', vt_token = ''uuid-0'',
                vt_expires = 3600000\<rparr>]
        (snd (createAdminMagicLink ((=) ''admin@example.com'') 0 ''uuid-1''
                  ''admin@example.com'' None ''https://app.fundroom.ai''
                  [\<lparr>vt_identifier = ''admin-magic:admin@example.com'', vt_token = ''uuid-0'',
                vt_expires = 3600000\<rparr>]))"
proof -
  have l: "toLowerCase ''LP@Example.com'' = ''lp@example.com''" by code_simp
  show ?thesis
    using
      issuance_uniqueness
        [where sendOk = True and now = 1000 and randomHex = "''aa11''"
           and email = "''LP@Example.com''"
           and url = "''https://app.fundroom.ai/api/auth/callback/email''"
           and rows = "[\<lparr>mlc_identifier = ''lp@example.com'', mlc_token = ''0f0f'',
                mlc_callbackUrl = ''https://app.fundroom.ai/api/auth/callback/email'',
                mlc_authTokenHash = [], mlc_expires = 500\<rparr>]"
           and res = "fst (sendVerificationRequestEmail True True 1000 ''aa11''
                ''LP@Example.com'' ''https://app.fundroom.ai/api/auth/callback/email''
                [\<lparr>mlc_identifier = ''lp@example.com'', mlc_token = ''0f0f'',
                mlc_callbackUrl = ''https://app.fundroom.ai/api/auth/callback/email'',
                mlc_authTokenHash = [], mlc_expires = 500\<rparr>])"
           and rows' = "snd (sendVerificationRequestEmail True True 1000 ''aa11''
                ''LP@Example.com'' ''https://app.fundroom.ai/api/auth/callback/email''
                [\<lparr>mlc_identifier = ''lp@example.com'', mlc_token = ''0f0f'',
                mlc_callbackUrl = ''https://app.fundroom.ai/api/auth/callback/email'',
                mlc_authTokenHash = [], mlc_expires = 500\<rparr>])"]
      issuance_uniqueness
        [where sendOk = True and now = 1000 and randomHex = "''aa11''"
           and email = "''LP@Example.com''" and url = "''not a url''" and rows = "[]"
           and res = "fst (sendVerificationRequestEmail False True 1000 ''aa11''
                ''LP@Example.com'' ''not a url'' [])"
           and rows' = "snd (sendVerificationRequestEmail False True 1000 ''aa11''
                ''LP@Example.com'' ''not a url'' [])"]
      issuance_uniqueness
        [where isAdmin = "(=) ''admin@example.com''" and now = 0 and uuid = "''uuid-1''"
           and email = "''admin@example.com''" and redirectPath = None
           and baseUrl = "''https://app.fundroom.ai''" and vrows = "[\<lparr>vt_identifier = ''admin-magic:admin@example.com'', vt_token = ''uuid-0'',
                vt_expires = 3600000\<rparr>]"
           and out = "fst (createAdminMagicLink ((=) ''admin@example.com'') 0 ''uuid-1''
                  ''admin@example.com'' None ''https://app.fundroom.ai''
                  [\<lparr>vt_identifier = ''admin-magic:admin@example.com'', vt_token = ''uuid-0'',
                vt_expires = 3600000\<rparr>])"
           and vrows' = "snd (createAdminMagicLink ((=) ''admin@example.com'') 0 ''uuid-1''
                  ''admin@example.com'' None ''https://app.fundroom.ai''
                  [\<lparr>vt_identifier = ''admin-magic:admin@example.com'', vt_token = ''uuid-0'',
                vt_expires = 3600000\<rparr>])"]
    by (simp add: l)
qed

text \<open>
  C2. After a successful verification the redirect target is \<open>/hub\<close>, and not the supplied
  value, when that value does not begin with a slash (an absolute URL, or a path without
  leading slash), begins with two slashes, or begins with none of the allowed prefixes; it
  is the supplied value when that begins with a single slash and with one of the allowed
  prefixes \<open>/hub\<close>, \<open>/dashboard\<close>, \<open>/settings\<close>, \<open>/datarooms\<close>, \<open>/admin\<close>.
\<close>

theorem redirect_target:
  "(\<not> startsWith r ''/'' \<longrightarrow> redirectTarget (Some r) = ''/hub'' \<and> redirectTarget (Some r) \<noteq> r)
   \<and> (startsWith r ''//'' \<longrightarrow> redirectTarget (Some r) = ''/hub'' \<and> redirectTarget (Some r) \<noteq> r)
   \<and> (\<not> list_ex (\<lambda>p. startsWith r p) allowedRedirectPrefixes
        \<longrightarrow> redirectTarget (Some r) = ''/hub'' \<and> redirectTarget (Some r) \<noteq> r)
   \<and> (startsWith r ''/'' \<and> \<not> startsWith r ''//''
        \<and> list_ex (\<lambda>p. startsWith r p) allowedRedirectPrefixes
        \<longrightarrow> redirectTarget (Some r) = r)
   \<and> (adminMagicVerify isAdmin now tok email redirect rows = (Some target, rows')
        \<longrightarrow> fst (verifyAdminMagicLink isAdmin now tok email rows)
            \<and> target = redirectTarget redirect)"
proof (intro conjI impI)
  assume "\<not> startsWith r ''/''"
  then show "redirectTarget (Some r) = ''/hub''"
    by (simp add: redirectTarget_def isAllowedRedirect_def defaultRedirect_def)
  assume "\<not> startsWith r ''/''"
  then show "redirectTarget (Some r) \<noteq> r"
    by (auto simp: redirectTarget_def isAllowedRedirect_def defaultRedirect_def startsWith_def)
next
  assume "startsWith r ''//''"
  then show "redirectTarget (Some r) = ''/hub''"
    by (simp add: redirectTarget_def isAllowedRedirect_def defaultRedirect_def)
  assume "startsWith r ''//''"
  then show "redirectTarget (Some r) \<noteq> r"
    by (auto simp: redirectTarget_def isAllowedRedirect_def defaultRedirect_def startsWith_iff)
next
  assume a: "\<not> list_ex (\<lambda>p. startsWith r p) allowedRedirectPrefixes"
  then show "redirectTarget (Some r) = ''/hub''"
    by (simp add: redirectTarget_def isAllowedRedirect_def defaultRedirect_def)
  from a show "redirectTarget (Some r) \<noteq> r"
    by (auto simp: redirectTarget_def isAllowedRedirect_def defaultRedirect_def
        allowedRedirectPrefixes_def startsWith_def)
next
  assume "startsWith r ''/'' \<and> \<not> startsWith r ''//''
        \<and> list_ex (\<lambda>p. startsWith r p) allowedRedirectPrefixes"
  then show "redirectTarget (Some r) = r"
    by (simp add: redirectTarget_def isAllowedRedirect_def)
next
  assume a: "adminMagicVerify isAdmin now tok email redirect rows = (Some target, rows')"
  then show "fst (verifyAdminMagicLink isAdmin now tok email rows)"
    by (auto simp: adminMagicVerify_def split: prod.splits if_splits)
  from a show "target = redirectTarget redirect"
    by (auto simp: adminMagicVerify_def split: prod.splits if_splits)
qed

theorem redirect_target_witness:
  "redirectTarget (Some ''https://evil.com'') = ''/hub''
   \<and> redirectTarget (Some ''hub'') = ''/hub''
   \<and> redirectTarget (Some ''//evil.com'') = ''/hub''
   \<and> redirectTarget (Some ''/api/secret'') = ''/hub''
   \<and> redirectTarget (Some ''/datarooms/123'') = ''/datarooms/123''
   \<and> redirectTarget (Some ''/hub'') = ''/hub''
   \<and> fst (adminMagicVerify ((=) ''admin@example.com'') 1000 ''tok-1'' ''admin@example.com''
        (Some ''https://evil.com'')
        [\<lparr>vt_identifier = ''admin-magic:admin@example.com'', vt_token = ''tok-1'',
          vt_expires = 3600000\<rparr>])
     = Some ''/hub''"
proof -
  have h1: "\<not> startsWith ''https://evil.com'' ''/''" by code_simp
  have h2: "\<not> startsWith ''hub'' ''/''" by code_simp
  have h3: "startsWith ''//evil.com'' ''//''" by code_simp
  have h4: "\<not> list_ex (\<lambda>p. startsWith ''/api/secret'' p) allowedRedirectPrefixes" by code_simp
  have h5: "startsWith ''/datarooms/123'' ''/'' \<and> \<not> startsWith ''/datarooms/123'' ''//''
        \<and> list_ex (\<lambda>p. startsWith ''/datarooms/123'' p) allowedRedirectPrefixes" by code_simp
  have h6: "startsWith ''/hub'' ''/'' \<and> \<not> startsWith ''/hub'' ''//''
        \<and> list_ex (\<lambda>p. startsWith ''/hub'' p) allowedRedirectPrefixes" by code_simp
  let ?v = "adminMagicVerify ((=) ''admin@example.com'') 1000 ''tok-1'' ''admin@example.com''
        (Some ''https://evil.com'')
        [\<lparr>vt_identifier = ''admin-magic:admin@example.com'', vt_token = ''tok-1'',
          vt_expires = 3600000\<rparr>]"
  have h7: "?v = (Some (the (fst ?v)), snd ?v)" by code_simp
  from redirect_target [where r = "''https://evil.com''"] h1
  have c1: "redirectTarget (Some ''https://evil.com'') = ''/hub''" by simp
  from redirect_target [where r = "''hub''"] h2
  have c2: "redirectTarget (Some ''hub'') = ''/hub''" by simp
  from redirect_target [where r = "''//evil.com''"] h3
  have c3: "redirectTarget (Some ''//evil.com'') = ''/hub''" by simp
  from redirect_target [where r = "''/api/secret''"] h4
  have c4: "redirectTarget (Some ''/api/secret'') = ''/hub''" by simp
  from redirect_target [where r = "''/datarooms/123''"] h5
  have c5: "redirectTarget (Some ''/datarooms/123'') = ''/datarooms/123''" by simp
  from redirect_target [where r = "''/hub''"] h6
  have c6: "redirectTarget (Some ''/hub'') = ''/hub''" by simp
  from redirect_target
    [where isAdmin = "(=) ''admin@example.com''" and now = 1000 and tok = "''tok-1''"
       and email = "''admin@example.com''" and redirect = "Some ''https://evil.com''"
       and rows = "[\<lparr>vt_identifier = ''admin-magic:admin@example.com'', vt_token = ''tok-1'',
          vt_expires = 3600000\<rparr>]"
       and target = "the (fst ?v)" and rows' = "snd ?v"] h7
  have "the (fst ?v) = redirectTarget (Some ''https://evil.com'')" by simp
  with h7 c1 have c7: "fst ?v = Some ''/hub''" by (metis fst_conv)
  from c1 c2 c3 c4 c5 c6 c7 show ?thesis by simp
qed

section \<open>Properties of the rate limiter\<close>




end
